theory Spec2Isabelle
  imports Complex_Main
begin

section \<open>Vehicle registration dashboard: table normalisation and period comparison\<close>

text \<open>
  A shallow embedding of \<^verbatim>\<open>src/app.py\<close>: the loader \<^verbatim>\<open>load_tables\<close>, the
  normaliser \<^verbatim>\<open>get_data\<close> and the month-over-month, January year-over-month,
  quarter-over-quarter and year-over-year blocks of the page script. Data frames are
  column-major: a list of column labels, a row count, and one list of cells per column.
  A \<^verbatim>\<open>raise\<close> inside \<^verbatim>\<open>get_data\<close> is an \<open>Inl\<close> value; an exception
  inside a comparison block is caught by the block's \<^verbatim>\<open>except Exception\<close> and is
  the block's failed outcome.
\<close>

subsection \<open>Data model\<close>

datatype table_type =
  VehicleClass | Manufacturer | VehicleCategoryMonthWise | ManufacturerMonthWise

datatype vehicle_type = FourWheeler | ThreeWheeler | TwoWheeler

text \<open>
  A table read with \<^verbatim>\<open>header=None\<close> has positional labels; \<^verbatim>\<open>get_data\<close>
  replaces them by names.
\<close>

datatype label = Pos nat | Name string

text \<open>
  The first column keeps its text; the other columns hold the text that
  \<^verbatim>\<open>astype(str)\<close> gives before the coercion and integers after it.
\<close>

datatype cell = Str string | Num int

record frame =
  columns :: "label list"
  nrows :: nat
  cells :: "cell list list"

record raw_table =
  raw_nrows :: nat
  raw_cells :: "string list list"

datatype error =
  LengthMismatch nat nat
  | IntCastingNaNError

definition empty_frame :: frame where
  "empty_frame = \<lparr>columns = [], nrows = 0, cells = []\<rparr>"

definition is_empty :: "frame \<Rightarrow> bool" where
  "is_empty df = (columns df = [] \<or> nrows df = 0)"

definition month_names :: "string list" where
  "month_names = [''Jan'', ''Feb'', ''Mar'', ''Apr'', ''May'', ''Jun'',
                  ''Jul'', ''Aug'', ''Sep'', ''Oct'', ''Nov'', ''Dec'']"

subsection \<open>Loading: \<^verbatim>\<open>load_tables\<close> and the file path\<close>

text \<open>
  What \<^verbatim>\<open>pd.read_html\<close> does with an existing file: it returns tables, raises
  \<^verbatim>\<open>ValueError\<close> (no tables found), or raises something else. A path that is not
  in the map does not exist.
\<close>

datatype read_html = Tables "raw_table list" | NoTablesFound | OtherFailure

type_synonym filesystem = "string \<rightharpoonup> read_html"

definition load_tables :: "filesystem \<Rightarrow> string \<Rightarrow> raw_table list" where
  "load_tables fs html_path =
     (case fs html_path of
        None \<Rightarrow> []
      | Some (Tables tables) \<Rightarrow> tables
      | Some NoTablesFound \<Rightarrow> []
      | Some OtherFailure \<Rightarrow> [])"

definition table_type_name :: "table_type \<Rightarrow> string" where
  "table_type_name tt =
     (case tt of
        VehicleClass \<Rightarrow> ''Vehicle Class''
      | Manufacturer \<Rightarrow> ''Manufacturer''
      | VehicleCategoryMonthWise \<Rightarrow> ''Vehicle Category Month Wise''
      | ManufacturerMonthWise \<Rightarrow> ''Manufacturer Month Wise'')"

definition vehicle_types :: "vehicle_type \<Rightarrow> string" where
  "vehicle_types vt =
     (case vt of
        FourWheeler \<Rightarrow> ''four_wheeler''
      | ThreeWheeler \<Rightarrow> ''three_wheeler''
      | TwoWheeler \<Rightarrow> ''two_wheeler'')"

definition ord :: "char \<Rightarrow> nat" where
  "ord c = of_char c"

definition lower_char :: "char \<Rightarrow> char" where
  "lower_char c =
     (if ord CHR ''A'' \<le> ord c \<and> ord c \<le> ord CHR ''Z'' then char_of (ord c + 32) else c)"

definition slug :: "string \<Rightarrow> string" where
  "slug s = map lower_char (map (\<lambda>c. if c = CHR '' '' then CHR ''_'' else c) s)"

definition html_path :: "string \<Rightarrow> table_type \<Rightarrow> vehicle_type option \<Rightarrow> string" where
  "html_path year tt selected_vehicle_type =
     (case selected_vehicle_type of
        Some vt \<Rightarrow>
          ''src/'' @ vehicle_types vt @ ''_'' @ slug (table_type_name tt) @ ''_'' @ year @ ''.html''
      | None \<Rightarrow> ''src/'' @ slug (table_type_name tt) @ ''_'' @ year @ ''.html'')"

subsection \<open>Normalisation: \<^verbatim>\<open>get_data\<close>\<close>

definition select_index :: "'a list \<Rightarrow> nat" where
  "select_index tables = (if length tables > 5 then 5 else length tables - 1)"

definition to_frame :: "raw_table \<Rightarrow> frame" where
  "to_frame t =
     \<lparr>columns = map Pos [0..<length (raw_cells t)],
      nrows = raw_nrows t,
      cells = map (map Str) (raw_cells t)\<rparr>"

text \<open>\<^verbatim>\<open>df.iloc[:, 1:]\<close>: every column but the first.\<close>

definition drop_first_column :: "frame \<Rightarrow> frame" where
  "drop_first_column df = df\<lparr>columns := drop 1 (columns df), cells := drop 1 (cells df)\<rparr>"

text \<open>
  \<^verbatim>\<open>df.columns = names\<close> raises \<^verbatim>\<open>ValueError\<close> (length mismatch) unless there
  are as many names as columns.
\<close>

definition set_columns :: "frame \<Rightarrow> string list \<Rightarrow> error + frame" where
  "set_columns df names =
     (if length names = length (columns df) then Inr (df\<lparr>columns := map Name names\<rparr>)
      else Inl (LengthMismatch (length (columns df)) (length names)))"

definition fixed_columns :: "string \<Rightarrow> vehicle_type \<Rightarrow> string list" where
  "fixed_columns key vt =
     (case vt of
        TwoWheeler \<Rightarrow> [key, ''2WIC'', ''2WN'', ''2WT'', ''TOTAL'']
      | ThreeWheeler \<Rightarrow> [key, ''3WN'', ''3WT'', ''TOTAL'']
      | FourWheeler \<Rightarrow> [key, ''4WIC'', ''LMV'', ''MMV'', ''HMV'', ''TOTAL''])"

definition month_wise :: "table_type \<Rightarrow> bool" where
  "month_wise tt = (tt = VehicleCategoryMonthWise \<or> tt = ManufacturerMonthWise)"

text \<open>\<^verbatim>\<open>num_months = len(df.columns) - 2\<close>\<close>

definition num_months :: "frame \<Rightarrow> int" where
  "num_months df = int (length (columns df)) - 2"

text \<open>
  The column-naming chain of \<^verbatim>\<open>get_data\<close>. \<open>Inr None\<close> is the early
  \<^verbatim>\<open>return pd.DataFrame()\<close> of the month-wise branch; with no vehicle type the
  first two branches assign nothing.
\<close>

definition monthly_columns :: "string \<Rightarrow> frame \<Rightarrow> error + frame option" where
  "monthly_columns key_column_name df =
     (if num_months df > 0 then
        map_sum id Some
          (set_columns df
             ([key_column_name] @ take (nat (num_months df)) month_names @ [''TOTAL'']))
      else Inr None)"

definition assign_columns ::
  "table_type \<Rightarrow> vehicle_type option \<Rightarrow> frame \<Rightarrow> error + frame option" where
  "assign_columns tt selected_vehicle_type df =
     (if tt = Manufacturer then
        (case selected_vehicle_type of
           Some vt \<Rightarrow> map_sum id Some (set_columns df (fixed_columns ''Manufacturer'' vt))
         | None \<Rightarrow> Inr (Some df))
      else if tt = VehicleClass then
        (case selected_vehicle_type of
           Some vt \<Rightarrow> map_sum id Some (set_columns df (fixed_columns ''Class'' vt))
         | None \<Rightarrow> Inr (Some df))
      else if month_wise tt then
        monthly_columns
          (if tt = VehicleCategoryMonthWise then ''Category'' else ''Manufacturer'') df
      else Inr (Some df))"

subsection \<open>Decimal text\<close>

text \<open>\<^verbatim>\<open>str(n)\<close> for an integer.\<close>

definition digit_char :: "nat \<Rightarrow> char" where
  "digit_char d = ''0123456789'' ! d"

function show_nat :: "nat \<Rightarrow> string" where
  "show_nat n =
     (if n < 10 then [digit_char n] else show_nat (n div 10) @ [digit_char (n mod 10)])"
  by pat_completeness auto
termination
  by (relation "measure id") auto

declare show_nat.simps [simp del]

definition show_int :: "int \<Rightarrow> string" where
  "show_int i = (if i < 0 then ''-'' @ show_nat (nat (- i)) else show_nat (nat i))"

subsection \<open>Numeric coercion\<close>

text \<open>
  The coercion line is
  \<^verbatim>\<open>pd.to_numeric(df[col].astype(str).str.replace(",", ""), errors='coerce').fillna(0).astype(int)\<close>.
  \<^verbatim>\<open>to_numeric\<close> is library code. Its result is fixed here on the inputs where it
  is beyond doubt: the empty string and a word of letters are not numbers (NaN), except
  the spellings of infinity; an optionally minus-signed run of decimal digits of
  magnitude at most \<open>2 ^ 53\<close> is that integer (exact whether the column ends up as
  integers or as floats). On every other text the outcome of the whole line for the cell
  is the parameter \<open>lib\<close>, which sees the column as well.
\<close>

datatype numeric = NaN | Finite int | Infinite

definition str_replace_comma :: "string \<Rightarrow> string" where
  "str_replace_comma s = filter (\<lambda>c. c \<noteq> CHR '','') s"

definition is_digit :: "char \<Rightarrow> bool" where
  "is_digit c = (ord CHR ''0'' \<le> ord c \<and> ord c \<le> ord CHR ''9'')"

definition is_letter :: "char \<Rightarrow> bool" where
  "is_letter c =
     ((ord CHR ''a'' \<le> ord c \<and> ord c \<le> ord CHR ''z'') \<or>
      (ord CHR ''A'' \<le> ord c \<and> ord c \<le> ord CHR ''Z''))"

definition digit_val :: "char \<Rightarrow> nat" where
  "digit_val c = ord c - ord CHR ''0''"

definition digits_val :: "string \<Rightarrow> nat" where
  "digits_val ds = foldl (\<lambda>acc c. 10 * acc + digit_val c) 0 ds"

definition int_literal :: "string \<Rightarrow> int option" where
  "int_literal s =
     (case s of
        [] \<Rightarrow> None
      | c # rest \<Rightarrow>
          if c = CHR ''-'' then
            (if rest \<noteq> [] \<and> list_all is_digit rest then Some (- int (digits_val rest)) else None)
          else if list_all is_digit s then Some (int (digits_val s))
          else None)"

definition to_numeric_known :: "string \<Rightarrow> numeric option" where
  "to_numeric_known s =
     (if s = [] then Some NaN
      else if list_all is_letter s then
        (if map lower_char s \<in> {''inf'', ''infinity''} then Some Infinite else Some NaN)
      else
        (case int_literal s of
           Some v \<Rightarrow> if \<bar>v\<bar> \<le> 2 ^ 53 then Some (Finite v) else None
         | None \<Rightarrow> None))"

definition fillna0 :: "numeric \<Rightarrow> numeric" where
  "fillna0 v = (case v of NaN \<Rightarrow> Finite 0 | _ \<Rightarrow> v)"

text \<open>\<^verbatim>\<open>astype(int)\<close> raises on a value that is not finite.\<close>

definition astype_int :: "numeric \<Rightarrow> error + int" where
  "astype_int v = (case v of Finite n \<Rightarrow> Inr n | _ \<Rightarrow> Inl IntCastingNaNError)"

type_synonym to_numeric_lib = "string list \<Rightarrow> string \<Rightarrow> error + int"

definition coerce_cell :: "to_numeric_lib \<Rightarrow> string list \<Rightarrow> string \<Rightarrow> error + int" where
  "coerce_cell lib col s =
     (let t = str_replace_comma s in
      case to_numeric_known t of
        Some v \<Rightarrow> astype_int (fillna0 v)
      | None \<Rightarrow> lib col t)"

fun sequence_sum :: "('e + 'a) list \<Rightarrow> 'e + 'a list" where
  "sequence_sum [] = Inr []"
| "sequence_sum (x # xs) =
     (case x of
        Inl e \<Rightarrow> Inl e
      | Inr v \<Rightarrow> (case sequence_sum xs of Inl e \<Rightarrow> Inl e | Inr vs \<Rightarrow> Inr (v # vs)))"

definition astype_str :: "cell \<Rightarrow> string" where
  "astype_str c = (case c of Str s \<Rightarrow> s | Num n \<Rightarrow> show_int n)"

definition coerce_column :: "to_numeric_lib \<Rightarrow> cell list \<Rightarrow> error + cell list" where
  "coerce_column lib col =
     (let texts = map astype_str col in
      map_sum id (map Num) (sequence_sum (map (coerce_cell lib texts) texts)))"

text \<open>
  \<^verbatim>\<open>num_cols\<close> is every column whose label differs from the first column's label;
  the loop coerces them in order and stops at the first raise.
\<close>

definition coerce_frame :: "to_numeric_lib \<Rightarrow> frame \<Rightarrow> error + frame" where
  "coerce_frame lib df =
     (case columns df of
        [] \<Rightarrow> Inr df
      | key # _ \<Rightarrow>
          map_sum id (\<lambda>cs. df\<lparr>cells := cs\<rparr>)
            (sequence_sum
               (map (\<lambda>(l, col). if l \<noteq> key then coerce_column lib col else Inr col)
                  (zip (columns df) (cells df)))))"

text \<open>
  \<^verbatim>\<open>get_data\<close> from the loaded tables on. The table it works on is
  \<^verbatim>\<open>tables[idx].copy().reset_index(drop=True).iloc[:, 1:]\<close>, with
  \<^verbatim>\<open>idx = 5 if len(tables) > 5 else len(tables) - 1\<close>.
\<close>

definition working_frame :: "raw_table list \<Rightarrow> frame" where
  "working_frame tables = drop_first_column (to_frame (tables ! select_index tables))"

definition get_data_tables :: "to_numeric_lib \<Rightarrow> table_type \<Rightarrow> vehicle_type option \<Rightarrow>
    raw_table list \<Rightarrow> error + frame" where
  "get_data_tables lib tt selected_vehicle_type tables =
     (if tables = [] then Inr empty_frame
      else
        (case assign_columns tt selected_vehicle_type (working_frame tables) of
           Inl e \<Rightarrow> Inl e
         | Inr None \<Rightarrow> Inr empty_frame
         | Inr (Some named) \<Rightarrow> coerce_frame lib named))"

definition get_data :: "filesystem \<Rightarrow> to_numeric_lib \<Rightarrow> string \<Rightarrow> table_type \<Rightarrow>
    vehicle_type option \<Rightarrow> error + frame" where
  "get_data fs lib year tt selected_vehicle_type =
     get_data_tables lib tt selected_vehicle_type
       (load_tables fs (html_path year tt selected_vehicle_type))"

subsection \<open>Percentage text\<close>

text \<open>
  The placeholder of the source, as the bytes of its literal in \<^verbatim>\<open>src/app.py\<close>
  (the dash of the specification).
\<close>

definition sentinel :: string where
  "sentinel = [CHR 0xC3, CHR 0xA2, CHR 0xE2, CHR 0x82, CHR 0xAC, CHR 0xE2, CHR 0x80, CHR 0x9D]"

text \<open>
  \<^verbatim>\<open>f"{x:.2f}"\<close>: two decimals, ties to even, a minus sign for every negative
  value. The source computes \<open>x\<close> in binary floating point; the model keeps the exact
  quotient.
\<close>

definition round_half_even :: "rat \<Rightarrow> nat" where
  "round_half_even q =
     (let n = nat \<lfloor>q\<rfloor>; r = q - of_int \<lfloor>q\<rfloor> in
      if r < 1 / 2 then n
      else if r > 1 / 2 then n + 1
      else if even n then n else n + 1)"

definition fmt2 :: "rat \<Rightarrow> string" where
  "fmt2 x =
     (let h = round_half_even (\<bar>x\<bar> * 100) in
      (if x < 0 then ''-'' else []) @ show_nat (h div 100) @ ''.'' @
      [digit_char (h mod 100 div 10), digit_char (h mod 10)])"

definition fmt_pct :: "rat \<Rightarrow> string" where
  "fmt_pct x = fmt2 x @ ''%''"

definition pct_change :: "int \<Rightarrow> int \<Rightarrow> rat" where
  "pct_change cur prev = of_int (cur - prev) / of_int prev * 100"

text \<open>The row lambda shared by all four comparisons.\<close>

definition row_change :: "int \<Rightarrow> int \<Rightarrow> string" where
  "row_change cur prev = (if prev \<noteq> 0 then fmt_pct (pct_change cur prev) else sentinel)"

text \<open>
  \<^verbatim>\<open>overall_change = (current_total - previous_total) / previous_total * 100 if
  previous_total != 0 else 0\<close>, shown as \<^verbatim>\<open>f"{overall_change:.2f}%"\<close>.
\<close>

definition overall_change :: "int \<Rightarrow> int \<Rightarrow> rat" where
  "overall_change current_total previous_total =
     (if previous_total \<noteq> 0 then pct_change current_total previous_total else 0)"

definition overall_delta :: "int \<Rightarrow> int \<Rightarrow> string" where
  "overall_delta current_total previous_total =
     fmt_pct (overall_change current_total previous_total)"

subsection \<open>Column access\<close>

definition has_column :: "frame \<Rightarrow> string \<Rightarrow> bool" where
  "has_column df c = (Name c \<in> set (columns df))"

definition column :: "frame \<Rightarrow> label \<Rightarrow> cell list option" where
  "column df l = map_of (zip (columns df) (cells df)) l"

definition cell_num :: "cell \<Rightarrow> int option" where
  "cell_num c = (case c of Num n \<Rightarrow> Some n | Str s \<Rightarrow> None)"

fun sequence_option :: "'a option list \<Rightarrow> 'a list option" where
  "sequence_option [] = Some []"
| "sequence_option (x # xs) =
     (case x of
        None \<Rightarrow> None
      | Some v \<Rightarrow> (case sequence_option xs of None \<Rightarrow> None | Some vs \<Rightarrow> Some (v # vs)))"

text \<open>
  A column read for arithmetic: \<open>None\<close> when the label is missing
  (\<^verbatim>\<open>KeyError\<close>) or a cell is text (\<^verbatim>\<open>TypeError\<close> at the subtraction);
  the page's \<^verbatim>\<open>except Exception\<close> catches both.
\<close>

definition numeric_column :: "frame \<Rightarrow> string \<Rightarrow> int list option" where
  "numeric_column df c =
     (case column df (Name c) of
        None \<Rightarrow> None
      | Some cs \<Rightarrow> sequence_option (map cell_num cs))"

subsection \<open>Comparison tables\<close>

text \<open>A row is (category, previous value, current value, change text).\<close>

record comparison =
  cmp_rows :: "(cell \<times> int \<times> int \<times> string) list"
  current_total :: int
  previous_total :: int
  delta :: string

text \<open>
  The change column, the two column sums and the metric, from rows of
  (category, previous, current).
\<close>

definition compare_rows :: "(cell \<times> int \<times> int) list \<Rightarrow> comparison" where
  "compare_rows rs =
     (let current_total = sum_list (map (\<lambda>(k, prev, cur). cur) rs);
          previous_total = sum_list (map (\<lambda>(k, prev, cur). prev) rs)
      in \<lparr>cmp_rows = map (\<lambda>(k, prev, cur). (k, prev, cur, row_change cur prev)) rs,
          current_total = current_total,
          previous_total = previous_total,
          delta = overall_delta current_total previous_total\<rparr>)"

text \<open>
  \<^verbatim>\<open>pd.merge(left, right, on=key_col, how="outer")\<close>: every pair of rows with equal
  keys, and each unmatched row of either side with the other side missing (NaN, here
  \<open>None\<close>). The library orders the result by key; the model lists the rows of the
  left table first, and nothing below depends on the order.
\<close>

definition matches ::
  "'k \<times> int \<Rightarrow> ('k \<times> int) list \<Rightarrow> ('k \<times> int option \<times> int option) list" where
  "matches r right =
     (case r of (k, a) \<Rightarrow>
        let ms = filter (\<lambda>(k', b). k' = k) right in
        if ms = [] then [(k, Some a, None)] else map (\<lambda>(k', b). (k, Some a, Some b)) ms)"

definition merge_outer ::
  "('k \<times> int) list \<Rightarrow> ('k \<times> int) list \<Rightarrow> ('k \<times> int option \<times> int option) list" where
  "merge_outer left right =
     concat (map (\<lambda>r. matches r right) left)
     @ map (\<lambda>(k, b). (k, None, Some b)) (filter (\<lambda>(k, b). k \<notin> set (map fst left)) right)"

definition fillna_row :: "'k \<times> int option \<times> int option \<Rightarrow> 'k \<times> int \<times> int" where
  "fillna_row r =
     (case r of (k, a, b) \<Rightarrow>
        (k, (case a of None \<Rightarrow> 0 | Some v \<Rightarrow> v), (case b of None \<Rightarrow> 0 | Some v \<Rightarrow> v)))"

text \<open>The joined table of a two-year comparison, as (category, previous, current).\<close>

definition joined :: "(cell \<times> int) list \<Rightarrow> (cell \<times> int) list \<Rightarrow> (cell \<times> int \<times> int) list" where
  "joined current_data prev_data =
     map (\<lambda>r. case fillna_row r of (k, cur, prev) \<Rightarrow> (k, prev, cur))
       (merge_outer current_data prev_data)"

text \<open>\<^verbatim>\<open>df[[key_col, c]]\<close> as rows of (category, value).\<close>

definition key_with :: "frame \<Rightarrow> label \<Rightarrow> string \<Rightarrow> (cell \<times> int) list option" where
  "key_with df key_col c =
     (case column df key_col of
        None \<Rightarrow> None
      | Some ks \<Rightarrow> map_option (zip ks) (numeric_column df c))"

subsection \<open>Monthly comparison: month over month, and January against December\<close>

fun index_of :: "'a \<Rightarrow> 'a list \<Rightarrow> nat option" where
  "index_of x [] = None"
| "index_of x (y # ys) = (if x = y then Some 0 else map_option Suc (index_of x ys))"

text \<open>
  What a block of the page shows. \<open>Skipped\<close>: the block's condition on the selected
  month is false. \<open>Unavailable\<close>: the \<^verbatim>\<open>st.info\<close> message that a column is not
  available. \<open>Failed\<close>: an exception reached the block's \<^verbatim>\<open>except Exception\<close>
  (\<^verbatim>\<open>st.error\<close>).
\<close>

datatype monthly_outcome =
  MoM comparison | YoM comparison | MonthlyUnavailable | MonthlyFailed | MonthlySkipped

text \<open>
  \<open>prev_df\<close> is the value of \<^verbatim>\<open>get_data(prev_year, table_type, selected_vehicle_type)\<close>,
  which only the January branch evaluates.
\<close>

definition monthly_comparison ::
  "frame \<Rightarrow> error + frame \<Rightarrow> string option \<Rightarrow> monthly_outcome" where
  "monthly_comparison df prev_df selected_month =
     (case selected_month of
        None \<Rightarrow> MonthlySkipped
      | Some m \<Rightarrow>
          if m = [] \<or> m = ''All'' then MonthlySkipped
          else
            (case index_of m month_names of
               None \<Rightarrow> MonthlyFailed
             | Some current_month_index \<Rightarrow>
                 (case columns df of
                    [] \<Rightarrow> MonthlyFailed
                  | key_col # _ \<Rightarrow>
                      if current_month_index > 0 then
                        (let prev_month = month_names ! (current_month_index - 1) in
                         if has_column df prev_month \<and> has_column df m then
                           (case (column df key_col, numeric_column df prev_month,
                                  numeric_column df m) of
                              (Some ks, Some ps, Some cs) \<Rightarrow>
                                MoM (compare_rows (zip ks (zip ps cs)))
                            | _ \<Rightarrow> MonthlyFailed)
                         else MonthlyUnavailable)
                      else
                        (case prev_df of
                           Inl e \<Rightarrow> MonthlyFailed
                         | Inr pdf \<Rightarrow>
                             if has_column df ''Jan'' \<and> has_column pdf ''Dec'' then
                               (case (key_with df key_col ''Jan'',
                                      key_with pdf key_col ''Dec'') of
                                  (Some current_jan, Some prev_dec) \<Rightarrow>
                                    YoM (compare_rows (joined current_jan prev_dec))
                                | _ \<Rightarrow> MonthlyFailed)
                             else MonthlyUnavailable))))"

subsection \<open>Quarter over quarter\<close>

definition quarter_months :: "(string \<times> string list) list" where
  "quarter_months =
     [(''Q1 (Jan-Mar)'', [''Jan'', ''Feb'', ''Mar'']),
      (''Q2 (Apr-Jun)'', [''Apr'', ''May'', ''Jun'']),
      (''Q3 (Jul-Sep)'', [''Jul'', ''Aug'', ''Sep'']),
      (''Q4 (Oct-Dec)'', [''Oct'', ''Nov'', ''Dec''])]"

text \<open>\<^verbatim>\<open>existing_months = [m for m in months if m in df.columns]\<close>\<close>

definition existing_months :: "frame \<Rightarrow> string list \<Rightarrow> string list" where
  "existing_months df months = filter (has_column df) months"

text \<open>The quarters the loop keeps, each with its months that exist.\<close>

definition calculated_quarters :: "frame \<Rightarrow> (string \<times> string list) list" where
  "calculated_quarters df =
     filter (\<lambda>(quarter_name, existing). existing \<noteq> [])
       (map (\<lambda>(quarter_name, months). (quarter_name, existing_months df months)) quarter_months)"








subsection \<open>Year over year\<close>

datatype yoy_outcome = YoY string comparison | YoYNoPreviousYear | YoYFailed

text \<open>
  The compared column is the selected month when a month is selected and both tables
  have it, and \<^verbatim>\<open>"TOTAL"\<close> in every other case.
\<close>

definition data_col :: "frame \<Rightarrow> frame \<Rightarrow> string option \<Rightarrow> string" where
  "data_col df pdf selected_month =
     (case selected_month of
        None \<Rightarrow> ''TOTAL''
      | Some m \<Rightarrow>
          if m \<noteq> [] \<and> m \<noteq> ''All'' \<and> has_column df m \<and> has_column pdf m then m
          else ''TOTAL'')"

definition yoy_comparison :: "frame \<Rightarrow> error + frame \<Rightarrow> string option \<Rightarrow> yoy_outcome" where
  "yoy_comparison df prev_df selected_month =
     (case prev_df of
        Inl e \<Rightarrow> YoYFailed
      | Inr pdf \<Rightarrow>
          if \<not> is_empty pdf then
            (case columns df of
               [] \<Rightarrow> YoYFailed
             | key_col # _ \<Rightarrow>
                 (let c = data_col df pdf selected_month in
                  case (key_with df key_col c, key_with pdf key_col c) of
                    (Some current_data, Some prev_data) \<Rightarrow>
                      YoY c (compare_rows (joined current_data prev_data))
                  | _ \<Rightarrow> YoYFailed))
          else YoYNoPreviousYear)"

subsection \<open>Predicates of the statements\<close>




subsection \<open>Sample inputs\<close>

text \<open>A library stand-in for the texts the model leaves open: it answers 0.\<close>

definition lib0 :: to_numeric_lib where
  "lib0 = (\<lambda>col s. Inr 0)"

text \<open>A one-row table of \<open>n\<close> columns.\<close>

definition sample_table :: "nat \<Rightarrow> raw_table" where
  "sample_table n = \<lparr>raw_nrows = 1, raw_cells = replicate n [''7'']\<rparr>"

definition sample_fs :: "nat \<Rightarrow> filesystem" where
  "sample_fs n =
     [''src/vehicle_category_month_wise_2025.html'' \<mapsto> Tables [sample_table n]]"



text \<open>A normalised table from its key column and its integer columns.\<close>

definition table :: "string \<Rightarrow> string list \<Rightarrow> (string \<times> int list) list \<Rightarrow> frame" where
  "table key_name keys cols =
     \<lparr>columns = Name key_name # map (\<lambda>(c, vs). Name c) cols,
      nrows = length keys,
      cells = map Str keys # map (\<lambda>(c, vs). map Num vs) cols\<rparr>"


text \<open>A year in progress (three months) and a previous year with two months only.\<close>

definition df_three_months :: frame where
  "df_three_months =
     table ''Category'' [''X'']
       [(''Jan'', [100]), (''Feb'', [150]), (''Mar'', [0]), (''TOTAL'', [250])]"

definition df_two_months :: frame where
  "df_two_months =
     table ''Category'' [''X'']
       [(''Jan'', [80]), (''Feb'', [20]), (''TOTAL'', [100])]"



text \<open>One month of each of the first two quarters.\<close>

definition df_quarters :: frame where
  "df_quarters =
     table ''Category'' [''A'', ''B'']
       [(''Jan'', [1, 100]), (''Apr'', [2, 100]), (''TOTAL'', [3, 200])]"

section \<open>Properties of the normaliser\<close>

subsection \<open>Helper facts\<close>

lemma select_index_lt: "tables \<noteq> [] \<Longrightarrow> select_index tables < length tables"
  by (cases tables) (auto simp: select_index_def)

lemma sample_path_2025:
  "html_path ''2025'' VehicleCategoryMonthWise None = ''src/vehicle_category_month_wise_2025.html''"
  by code_simp

lemma sample_path_2024:
  "html_path ''2024'' VehicleCategoryMonthWise None = ''src/vehicle_category_month_wise_2024.html''"
  by code_simp

lemma sample_load:
  "load_tables (sample_fs n) (html_path ''2025'' VehicleCategoryMonthWise None) = [sample_table n]"
  unfolding sample_path_2025 by (simp add: load_tables_def sample_fs_def)

lemma sample_width:
  "length (columns (working_frame [sample_table n])) = n - 1"
  by (simp add: working_frame_def drop_first_column_def to_frame_def select_index_def
      sample_table_def)

lemma monthly_narrow:
  assumes "tables \<noteq> []" "month_wise tt" "num_months (working_frame tables) \<le> 0"
  shows "get_data_tables lib tt vt tables = Inr empty_frame"
  using assms
  by (auto simp: get_data_tables_def assign_columns_def month_wise_def monthly_columns_def)

lemma monthly_wide:
  assumes "tables \<noteq> []" "month_wise tt" "length (columns (working_frame tables)) > 14"
  shows "get_data_tables lib tt vt tables =
     Inl (LengthMismatch (length (columns (working_frame tables))) 14)"
  using assms
  by (auto simp: get_data_tables_def assign_columns_def month_wise_def monthly_columns_def
      num_months_def set_columns_def month_names_def)




subsection \<open>Selection of the working table\<close>

text \<open>
  Claim C8. For every non-empty sequence of raw tables, the table that normalisation
  works on is the one at index 5 when the sequence has more than 5 tables, and the last
  table otherwise: the index computed by the source picks that table, the working frame
  is that table without its first column, and the result of normalisation is the result
  on that table alone.
\<close>

theorem select_working_table:
  assumes "tables \<noteq> []"
  shows "tables ! select_index tables = (if length tables > 5 then tables ! 5 else last tables)
    \<and> working_frame tables =
        drop_first_column (to_frame (if length tables > 5 then tables ! 5 else last tables))
    \<and> get_data_tables lib tt vt tables =
        get_data_tables lib tt vt [if length tables > 5 then tables ! 5 else last tables]"
proof -
  have a: "tables ! select_index tables = (if length tables > 5 then tables ! 5 else last tables)"
    using assms by (simp add: select_index_def last_conv_nth)
  show ?thesis using assms a
    by (simp add: get_data_tables_def working_frame_def select_index_def[of "[x]" for x])
qed

theorem select_working_table_witness:
  "[sample_table 1, sample_table 2] \<noteq> [] \<and>
   [sample_table 1, sample_table 2] ! select_index [sample_table 1, sample_table 2]
     = sample_table 2 \<and>
   get_data_tables lib0 Manufacturer (Some TwoWheeler) [sample_table 1, sample_table 2] =
     get_data_tables lib0 Manufacturer (Some TwoWheeler) [sample_table 2]"
  using select_working_table
    [of "[sample_table 1, sample_table 2]" lib0 Manufacturer "Some TwoWheeler"]
  by simp

subsection \<open>No data\<close>

text \<open>
  Claim C9. When the file of the selection does not exist, or loading it gives no table
  (the file has none, or reading it fails), or the table type is month-wise and the
  inferred month count of the working table is at most 0, \<^verbatim>\<open>get_data\<close> returns
  the empty frame, which has zero rows and zero columns; it returns a value in each of
  these cases, so nothing is raised.
\<close>

theorem get_data_no_data:
  assumes "fs (html_path year tt vt) = None
     \<or> load_tables fs (html_path year tt vt) = []
     \<or> (month_wise tt \<and> num_months (working_frame (load_tables fs (html_path year tt vt))) \<le> 0)"
  shows "get_data fs lib year tt vt = Inr empty_frame
     \<and> nrows empty_frame = 0 \<and> columns empty_frame = []"
proof -
  have e: "nrows empty_frame = 0 \<and> columns empty_frame = []"
    by (simp add: empty_frame_def)
  have "get_data fs lib year tt vt = Inr empty_frame"
  proof (cases "load_tables fs (html_path year tt vt) = []")
    case True
    then show ?thesis by (simp add: get_data_def get_data_tables_def)
  next
    case False
    then have "fs (html_path year tt vt) \<noteq> None"
      by (auto simp: load_tables_def split: option.splits)
    with assms False
    have "month_wise tt \<and> num_months (working_frame (load_tables fs (html_path year tt vt))) \<le> 0"
      by blast
    with False show ?thesis
      by (simp add: get_data_def monthly_narrow)
  qed
  then show ?thesis using e by simp
qed

theorem get_data_no_data_witness:
  "month_wise VehicleCategoryMonthWise
   \<and> load_tables (sample_fs 2) (html_path ''2025'' VehicleCategoryMonthWise None)
       = [sample_table 2]
   \<and> num_months (working_frame [sample_table 2]) = - 1
   \<and> get_data (sample_fs 2) lib0 ''2025'' VehicleCategoryMonthWise None = Inr empty_frame
   \<and> (sample_fs 2) (html_path ''2024'' VehicleCategoryMonthWise None) = None
   \<and> get_data (sample_fs 2) lib0 ''2024'' VehicleCategoryMonthWise None = Inr empty_frame"
proof -
  have n: "num_months (working_frame [sample_table 2]) = - 1"
    by (simp add: num_months_def sample_width)
  have m: "month_wise VehicleCategoryMonthWise" by (simp add: month_wise_def)
  have a: "(sample_fs 2) (html_path ''2024'' VehicleCategoryMonthWise None) = None"
    unfolding sample_path_2024 by (simp add: sample_fs_def)
  show ?thesis
    using get_data_no_data [of "sample_fs 2" "''2025''" VehicleCategoryMonthWise None lib0]
      get_data_no_data [of "sample_fs 2" "''2024''" VehicleCategoryMonthWise None lib0]
      sample_load [of 2] n m a
    by simp
qed

subsection \<open>A month-wise table that is too wide\<close>

text \<open>
  Claim C10. For a month-wise table type, when the working table (the selected table
  without its leading column) has more than 14 columns, \<^verbatim>\<open>get_data\<close> raises at
  the column assignment: the name list has 14 entries (the key, the 12 month names,
  the total), fewer than the columns. It does not return the empty table.
\<close>

theorem monthly_too_wide_raises:
  assumes "month_wise tt"
    and "load_tables fs (html_path year tt vt) \<noteq> []"
    and "length (columns (working_frame (load_tables fs (html_path year tt vt)))) > 14"
  shows "get_data fs lib year tt vt =
     Inl (LengthMismatch
       (length (columns (working_frame (load_tables fs (html_path year tt vt))))) 14)
     \<and> get_data fs lib year tt vt \<noteq> Inr empty_frame"
  using assms by (simp add: get_data_def monthly_wide)

theorem monthly_too_wide_raises_witness:
  "month_wise VehicleCategoryMonthWise
   \<and> load_tables (sample_fs 16) (html_path ''2025'' VehicleCategoryMonthWise None)
       = [sample_table 16]
   \<and> length (columns (working_frame [sample_table 16])) = 15
   \<and> get_data (sample_fs 16) lib0 ''2025'' VehicleCategoryMonthWise None
       = Inl (LengthMismatch 15 14)"
proof -
  have n: "length (columns (working_frame [sample_table 16])) = 15"
    by (simp add: sample_width)
  have m: "month_wise VehicleCategoryMonthWise" by (simp add: month_wise_def)
  show ?thesis
    using monthly_too_wide_raises [of VehicleCategoryMonthWise "sample_fs 16" "''2025''" None lib0]
      sample_load [of 16] n m
    by simp
qed

subsection \<open>Structural mismatch\<close>




subsection \<open>Numeric coercion of the cells\<close>














section \<open>Properties of the period comparisons\<close>

subsection \<open>The change text and the shape of the results\<close>

lemma show_nat_digit: "n < 10 \<Longrightarrow> show_nat n = [digit_char n]"
  by (simp add: show_nat.simps [of n])






















subsection \<open>Columns that are absent\<close>

lemma index_of_mem: "index_of x ys = Some i \<Longrightarrow> x \<in> set ys"
  by (induction ys arbitrary: i) (auto split: if_splits)

lemma month_name_selected:
  assumes "index_of m month_names = Some i"
  shows "m \<noteq> [] \<and> m \<noteq> ''All''"
  using index_of_mem [OF assms] by (auto simp: month_names_def)

lemma index_of_jan: "index_of ''Jan'' month_names = Some 0"
  by (simp add: month_names_def)

lemma mom_unavailable:
  assumes "index_of m month_names = Some i" and "0 < i" and "columns df \<noteq> []"
    and "\<not> has_column df (month_names ! (i - 1)) \<or> \<not> has_column df m"
  shows "monthly_comparison df prev_df (Some m) = MonthlyUnavailable"
proof -
  obtain key rest where k: "columns df = key # rest"
    using assms(3) by (cases "columns df") auto
  show ?thesis
    using assms(1,2,4) month_name_selected [OF assms(1)] k
    by (auto simp: monthly_comparison_def Let_def)
qed

lemma yom_unavailable:
  assumes "columns df \<noteq> []"
    and "\<not> has_column df ''Jan'' \<or> \<not> has_column pdf ''Dec''"
  shows "monthly_comparison df (Inr pdf) (Some ''Jan'') = MonthlyUnavailable"
proof -
  obtain key rest where k: "columns df = key # rest"
    using assms(1) by (cases "columns df") auto
  show ?thesis
    using assms(2) k index_of_jan
    by (auto simp: monthly_comparison_def)
qed

lemma yoy_falls_back:
  assumes "\<not> has_column df m \<or> \<not> has_column pdf m"
  shows "data_col df pdf (Some m) = ''TOTAL''"
    and "yoy_comparison df (Inr pdf) (Some m) = yoy_comparison df (Inr pdf) None"
proof -
  show d: "data_col df pdf (Some m) = ''TOTAL''"
    using assms by (auto simp: data_col_def)
  have n: "data_col df pdf None = ''TOTAL''" by (simp add: data_col_def)
  show "yoy_comparison df (Inr pdf) (Some m) = yoy_comparison df (Inr pdf) None"
    by (cases "columns df") (simp_all add: yoy_comparison_def d n)
qed

subsection \<open>Counting the rows of the outer join\<close>














subsection \<open>The quarters that are kept\<close>














subsection \<open>The sample tables, evaluated\<close>

lemma table_columns:
  "columns (table key keys cols) = Name key # map (\<lambda>(c, vs). Name c) cols"
  "cells (table key keys cols) = map Str keys # map (\<lambda>(c, vs). map Num vs) cols"
  "nrows (table key keys cols) = length keys"
  by (simp_all add: table_def)

lemma sequence_option_nums: "sequence_option (map cell_num (map Num vs)) = Some vs"
  by (induction vs) (simp_all add: cell_num_def)









lemma dq_cols: "columns df_quarters = [Name ''Category'', Name ''Jan'', Name ''Apr'', Name ''TOTAL'']"
  by (simp add: df_quarters_def table_columns)





lemma dq_calculated:
  "calculated_quarters df_quarters = [(''Q1 (Jan-Mar)'', [''Jan'']), (''Q2 (Apr-Jun)'', [''Apr''])]"
  by (simp add: calculated_quarters_def quarter_months_def existing_months_def has_column_def dq_cols)











lemma t3_cols:
  "columns df_three_months =
     [Name ''Category'', Name ''Jan'', Name ''Feb'', Name ''Mar'', Name ''TOTAL'']"
  by (simp add: df_three_months_def table_columns)










lemma t2_cols:
  "columns df_two_months = [Name ''Category'', Name ''Jan'', Name ''Feb'', Name ''TOTAL'']"
  by (simp add: df_two_months_def table_columns)

lemma t2_nonempty: "\<not> is_empty df_two_months"
  by (simp add: is_empty_def t2_cols) (simp add: df_two_months_def table_columns)

lemma t3_total_rows: "key_with df_three_months (Name ''Category'') ''TOTAL'' = Some [(Str ''X'', 250)]"
  using sequence_option_nums [of "[250]"]
  by (simp add: key_with_def numeric_column_def column_def df_three_months_def table_columns)

lemma t2_total_rows: "key_with df_two_months (Name ''Category'') ''TOTAL'' = Some [(Str ''X'', 100)]"
  using sequence_option_nums [of "[100]"]
  by (simp add: key_with_def numeric_column_def column_def df_two_months_def table_columns)

lemma joined_one: "joined [(Str ''X'', 250)] [(Str ''X'', 100)] = [(Str ''X'', 100, 250)]"
  by (simp add: joined_def merge_outer_def matches_def fillna_row_def)

lemma show_nat_150: "show_nat 150 = ''150''"
  by (simp add: show_nat.simps [of 150] show_nat.simps [of 15] show_nat_digit digit_char_def)

lemma fmt_150: "fmt_pct 150 = ''150.00%''"
  by (simp add: fmt_pct_def fmt2_def round_half_even_def show_nat_150 digit_char_def)

lemma pc5: "pct_change 250 100 = 150"
  by (simp add: pct_change_def)

lemma t32_compare:
  "compare_rows [(Str ''X'', 100, 250)] =
     \<lparr>cmp_rows = [(Str ''X'', 100, 250, ''150.00%'')],
      current_total = 250, previous_total = 100, delta = ''150.00%''\<rparr>"
  by (simp add: compare_rows_def row_change_def overall_delta_def overall_change_def pc5 fmt_150)

lemma sample_yoy_total:
  "yoy_comparison df_three_months (Inr df_two_months) None =
     YoY ''TOTAL'' \<lparr>cmp_rows = [(Str ''X'', 100, 250, ''150.00%'')],
                   current_total = 250, previous_total = 100, delta = ''150.00%''\<rparr>"
  by (simp add: yoy_comparison_def t2_nonempty t3_cols data_col_def t3_total_rows t2_total_rows
      joined_one t32_compare)

lemma t2_no_mar: "\<not> has_column df_two_months ''Mar''" "\<not> has_column df_two_months ''Dec''"
  by (simp_all add: has_column_def t2_cols)

lemma t3_no_apr: "\<not> has_column df_three_months ''Apr''"
  by (simp add: has_column_def t3_cols)

lemma idx_apr: "index_of ''Apr'' month_names = Some 3"
  by (simp add: month_names_def)












lemma dq_included:
  "''Q1 (Jan-Mar)'' \<in> set (map fst (calculated_quarters df_quarters))"
  "''Q3 (Jul-Sep)'' \<notin> set (map fst (calculated_quarters df_quarters))"
  by (simp_all add: dq_calculated)


section \<open>The comparisons against the specification\<close>

subsection \<open>A baseline of zero\<close>




subsection \<open>The overall change\<close>




subsection \<open>A column that a comparison needs and the table lacks\<close>

text \<open>
  Claim C4, as stated: when the column a comparison needs is absent, the result is an
  explicit unavailable state, never the silent substitution of another column. It fails
  for the year-over-year comparison: with March selected and no March column in the
  previous year's table, the comparison is made on the TOTAL column and shows numbers.
\<close>

theorem yoy_substitutes_total_counterexample:
  "\<not> has_column df_two_months ''Mar''
   \<and> yoy_comparison df_three_months (Inr df_two_months) (Some ''Mar'') =
     YoY ''TOTAL'' \<lparr>cmp_rows = [(Str ''X'', 100, 250, ''150.00%'')],
                   current_total = 250, previous_total = 100, delta = ''150.00%''\<rparr>"
  using t2_no_mar(1) sample_yoy_total
    yoy_falls_back(2) [where df = df_three_months and pdf = df_two_months and m = "''Mar''"]
  by simp

text \<open>
  Claim C4, amended. For a table with at least one column: the month-over-month
  comparison of a month other than January is unavailable when the column of the previous
  month or of the selected month is absent; the January comparison is unavailable when the
  table has no Jan column or the previous year's table has no Dec column; neither fails
  and neither shows numbers. The year-over-year comparison of a selected month that is
  absent from either year's table is made on the TOTAL column instead: it is the
  comparison shown when no month is selected.
\<close>

theorem missing_comparison_column:
  assumes "columns df \<noteq> []"
  shows "(index_of m month_names = Some i \<and> 0 < i
          \<and> (\<not> has_column df (month_names ! (i - 1)) \<or> \<not> has_column df m)
        \<longrightarrow> monthly_comparison df prev_df (Some m) = MonthlyUnavailable)
     \<and> (\<not> has_column df ''Jan'' \<or> \<not> has_column pdf ''Dec''
        \<longrightarrow> monthly_comparison df (Inr pdf) (Some ''Jan'') = MonthlyUnavailable)
     \<and> (\<not> has_column df m \<or> \<not> has_column pdf m
        \<longrightarrow> data_col df pdf (Some m) = ''TOTAL''
          \<and> yoy_comparison df (Inr pdf) (Some m) = yoy_comparison df (Inr pdf) None)"
proof (intro conjI impI)
  assume "index_of m month_names = Some i \<and> 0 < i
          \<and> (\<not> has_column df (month_names ! (i - 1)) \<or> \<not> has_column df m)"
  then show "monthly_comparison df prev_df (Some m) = MonthlyUnavailable"
    using mom_unavailable [of m i df prev_df] assms by simp
next
  assume "\<not> has_column df ''Jan'' \<or> \<not> has_column pdf ''Dec''"
  then show "monthly_comparison df (Inr pdf) (Some ''Jan'') = MonthlyUnavailable"
    using yom_unavailable [of df pdf] assms by simp
next
  assume a: "\<not> has_column df m \<or> \<not> has_column pdf m"
  show "data_col df pdf (Some m) = ''TOTAL''"
    using a by (rule yoy_falls_back(1))
  show "yoy_comparison df (Inr pdf) (Some m) = yoy_comparison df (Inr pdf) None"
    using a by (rule yoy_falls_back(2))
qed

theorem missing_comparison_column_witness:
  "columns df_three_months \<noteq> []
   \<and> index_of ''Apr'' month_names = Some 3
   \<and> \<not> has_column df_three_months ''Apr''
   \<and> monthly_comparison df_three_months (Inr df_two_months) (Some ''Apr'') = MonthlyUnavailable
   \<and> \<not> has_column df_two_months ''Dec''
   \<and> monthly_comparison df_three_months (Inr df_two_months) (Some ''Jan'') = MonthlyUnavailable
   \<and> \<not> has_column df_two_months ''Mar''
   \<and> data_col df_three_months df_two_months (Some ''Mar'') = ''TOTAL''"
proof -
  have c: "columns df_three_months \<noteq> []" by (simp add: t3_cols)
  note a = missing_comparison_column [OF c, where prev_df = "Inr df_two_months"
      and pdf = df_two_months and i = 3]
  have 1: "monthly_comparison df_three_months (Inr df_two_months) (Some ''Apr'') = MonthlyUnavailable"
    using a [where m = "''Apr''"] idx_apr t3_no_apr by simp
  have 2: "monthly_comparison df_three_months (Inr df_two_months) (Some ''Jan'') = MonthlyUnavailable"
    using a [where m = "''Mar''"] t2_no_mar(2) by simp
  have 3: "data_col df_three_months df_two_months (Some ''Mar'') = ''TOTAL''"
    using a [where m = "''Mar''"] t2_no_mar(1) by simp
  show ?thesis using c idx_apr t3_no_apr t2_no_mar 1 2 3 by simp
qed

subsection \<open>The outer join of two years\<close>




subsection \<open>Quarter over quarter\<close>



end
